theory Spec2Isabelle
  imports Complex_Main
begin

section \<open>JavaScript numbers\<close>

text \<open>
  A JavaScript number is modelled as an exact rational, or one of the three special
  values \<open>NaN\<close>, \<open>Infinity\<close> and \<open>-Infinity\<close>. Finite arithmetic is exact: the rounding
  of IEEE doubles and the sign of zero are not part of the model. The value
  \<open>undefined\<close> of an optional field is \<open>None\<close>.
\<close>

datatype jsnum = Fin rat | PosInf | NegInf | NaN

text \<open>\<open>ToNumber\<close> on a possibly absent number: \<open>undefined\<close> becomes \<open>NaN\<close>.\<close>

fun ToNumber :: "jsnum option \<Rightarrow> jsnum" where
  "ToNumber None = NaN"
| "ToNumber (Some x) = x"

text \<open>Truthiness of a number, as \<open>||\<close> tests it: \<open>0\<close> and \<open>NaN\<close> are falsy.\<close>

fun truthy :: "jsnum \<Rightarrow> bool" where
  "truthy (Fin x) = (x \<noteq> 0)"
| "truthy NaN = False"
| "truthy _ = True"

text \<open>\<open>a || d\<close> for an optional number \<open>a\<close>.\<close>

fun js_or :: "jsnum option \<Rightarrow> jsnum \<Rightarrow> jsnum" where
  "js_or None d = d"
| "js_or (Some x) d = (if truthy x then x else d)"

fun js_neg :: "jsnum \<Rightarrow> jsnum" where
  "js_neg (Fin x) = Fin (- x)"
| "js_neg PosInf = NegInf"
| "js_neg NegInf = PosInf"
| "js_neg NaN = NaN"

fun js_add :: "jsnum \<Rightarrow> jsnum \<Rightarrow> jsnum" where
  "js_add (Fin x) (Fin y) = Fin (x + y)"
| "js_add NaN _ = NaN"
| "js_add _ NaN = NaN"
| "js_add PosInf NegInf = NaN"
| "js_add NegInf PosInf = NaN"
| "js_add PosInf _ = PosInf"
| "js_add NegInf _ = NegInf"
| "js_add _ PosInf = PosInf"
| "js_add _ NegInf = NegInf"

definition js_sub :: "jsnum \<Rightarrow> jsnum \<Rightarrow> jsnum" where
  "js_sub a b = js_add a (js_neg b)"

text \<open>The sign of an infinite product or quotient.\<close>

definition signed_inf :: "bool \<Rightarrow> jsnum" where
  "signed_inf positive = (if positive then PosInf else NegInf)"

fun js_mul :: "jsnum \<Rightarrow> jsnum \<Rightarrow> jsnum" where
  "js_mul (Fin x) (Fin y) = Fin (x * y)"
| "js_mul NaN _ = NaN"
| "js_mul _ NaN = NaN"
| "js_mul (Fin x) PosInf = (if x = 0 then NaN else signed_inf (0 < x))"
| "js_mul (Fin x) NegInf = (if x = 0 then NaN else signed_inf (x < 0))"
| "js_mul PosInf (Fin y) = (if y = 0 then NaN else signed_inf (0 < y))"
| "js_mul NegInf (Fin y) = (if y = 0 then NaN else signed_inf (y < 0))"
| "js_mul PosInf PosInf = PosInf"
| "js_mul NegInf NegInf = PosInf"
| "js_mul PosInf NegInf = NegInf"
| "js_mul NegInf PosInf = NegInf"

text \<open>
  Division never raises: a non-zero number over zero is infinite, zero over zero is
  \<open>NaN\<close>. (Zero is taken as \<open>+0\<close>.)
\<close>

fun js_div :: "jsnum \<Rightarrow> jsnum \<Rightarrow> jsnum" where
  "js_div (Fin x) (Fin y) =
     (if y = 0 then (if x = 0 then NaN else signed_inf (0 < x)) else Fin (x / y))"
| "js_div NaN _ = NaN"
| "js_div _ NaN = NaN"
| "js_div (Fin x) _ = Fin 0"
| "js_div PosInf (Fin y) = signed_inf (0 \<le> y)"
| "js_div NegInf (Fin y) = signed_inf (y < 0)"
| "js_div _ _ = NaN"

text \<open>
  The remainder operator \<open>%\<close>: the quotient is truncated towards zero, so the result
  has the sign of the dividend.
\<close>

definition trunc :: "rat \<Rightarrow> int" where
  "trunc x = (if 0 \<le> x then \<lfloor>x\<rfloor> else - \<lfloor>- x\<rfloor>)"

fun js_rem :: "jsnum \<Rightarrow> jsnum \<Rightarrow> jsnum" where
  "js_rem (Fin x) (Fin y) = (if y = 0 then NaN else Fin (x - y * of_int (trunc (x / y))))"
| "js_rem (Fin x) PosInf = Fin x"
| "js_rem (Fin x) NegInf = Fin x"
| "js_rem _ _ = NaN"

text \<open>\<open>Math.round\<close>: the nearest integer, a tie going towards \<open>+Infinity\<close>.\<close>

fun Math_round :: "jsnum \<Rightarrow> jsnum" where
  "Math_round (Fin x) = Fin (of_int \<lfloor>x + 1 / 2\<rfloor>)"
| "Math_round z = z"

section \<open>The data model\<close>

text \<open>
  The interfaces \<open>MidiNote\<close>, \<open>MidiTrack\<close>, \<open>TimeSignature\<close> and \<open>MidiComposition\<close>.
  An optional field is an \<open>option\<close>. A pitch is a number or a string; so is, before
  normalization, a duration (the declared type is \<open>string\<close>, the handler tests
  \<open>typeof note.duration === 'number'\<close>). The field \<open>bpm\<close> is declared mandatory but
  read with a fallback, so it is optional here.
\<close>

datatype pitch = PitchNum jsnum | PitchStr string

datatype duration = DurNum jsnum | DurStr string

record MidiNote =
  pitch :: pitch
  beat :: "jsnum option"
  startTime :: "jsnum option"
  time :: "jsnum option"
  duration :: duration
  velocity :: "jsnum option"
  channel :: "jsnum option"

record MidiTrack =
  name :: "string option"
  instrument :: "jsnum option"
  track_notes :: "MidiNote list"  \<comment> \<open>the field \<open>notes\<close>\<close>

record TimeSignature =
  numerator :: jsnum
  denominator :: jsnum

record MidiComposition =
  bpm :: "jsnum option"
  tempo :: "jsnum option"
  timeSignature :: "TimeSignature option"
  tracks :: "MidiTrack list"

section \<open>Normalization in the request handler\<close>

text \<open>
  The first pass of the handler over all notes: a numeric duration is replaced by a
  string, by the \<open>switch\<close> with its \<open>default\<close> branch. \<open>switch\<close> compares with
  \<open>===\<close>, under which \<open>NaN\<close> equals nothing.
\<close>

fun convertDuration :: "duration \<Rightarrow> duration" where
  "convertDuration (DurNum d) =
     (if d = Fin (1 / 8) then DurStr ''32''
      else if d = Fin (1 / 4) then DurStr ''16''
      else if d = Fin (1 / 2) then DurStr ''8''
      else if d = Fin 1 then DurStr ''4''
      else if d = Fin 2 then DurStr ''2''
      else DurStr ''4'')"
| "convertDuration (DurStr s) = DurStr s"

definition normalizeDuration :: "MidiNote \<Rightarrow> MidiNote" where
  "normalizeDuration note = note\<lparr>duration := convertDuration (duration note)\<rparr>"

text \<open>
  The second pass: \<open>if ('time' in note && note.startTime === undefined)
  { note.startTime = note.time; delete note.time; }\<close>.
\<close>

definition normalizeTime :: "MidiNote \<Rightarrow> MidiNote" where
  "normalizeTime note =
     (if time note \<noteq> None \<and> startTime note = None
      then note\<lparr>startTime := time note, time := None\<rparr>
      else note)"

text \<open>\<open>composition.tracks.forEach(track => track.notes.forEach(f))\<close>, updating in place.\<close>

definition forEachNote :: "(MidiNote \<Rightarrow> MidiNote) \<Rightarrow> MidiComposition \<Rightarrow> MidiComposition" where
  "forEachNote f composition =
     composition\<lparr>tracks := map (\<lambda>track. track\<lparr>track_notes := map f (track_notes track)\<rparr>) (tracks composition)\<rparr>"

definition normalizeComposition :: "MidiComposition \<Rightarrow> MidiComposition" where
  "normalizeComposition composition =
     forEachNote normalizeTime (forEachNote normalizeDuration composition)"

section \<open>Pitch and timing\<close>

fun noteToMidiNumber :: "pitch \<Rightarrow> pitch" where
  "noteToMidiNumber (PitchNum n) = PitchNum n"
| "noteToMidiNumber note = note"

text \<open>
  A wait is the string \<open>`T${ticks}`\<close>; the constructor \<open>T\<close> stands for the prefix and
  carries the number that the template prints.
\<close>

datatype wait = T jsnum

definition PPQ :: jsnum where
  "PPQ = Fin 128"

definition convertBeatToWait :: "jsnum \<Rightarrow> jsnum \<Rightarrow> wait" where
  "convertBeatToWait beat_arg bpm_arg =
     (let adjustedBeat = js_sub beat_arg (Fin 1);
          ticks = Math_round (js_div (js_mul adjustedBeat PPQ) bpm_arg)
      in T ticks)"

section \<open>Building the tracks\<close>

text \<open>
  The library \<open>midi-writer-js\<close> is outside the program. A track is modelled by the
  calls that \<open>createMidiFile\<close> makes on it, in order, with their arguments; a
  \<open>NoteEvent\<close> carries the option object it is constructed from.
\<close>

record NoteEventOptions =
  ev_pitch :: "pitch list"
  ev_duration :: duration
  ev_velocity :: jsnum
  ev_channel :: jsnum
  ev_wait :: wait

datatype track_call =
    addTrackName string
  | setTempo jsnum
  | setTimeSignature jsnum jsnum
  | ProgramChangeEvent jsnum jsnum  \<comment> \<open>instrument, channel\<close>
  | NoteEvent NoteEventOptions

text \<open>\<open>trackIndex % 16\<close>, the index being an array index.\<close>

definition indexChannel :: "nat \<Rightarrow> jsnum" where
  "indexChannel trackIndex = js_rem (Fin (of_nat trackIndex)) (Fin 16)"

text \<open>The body of \<open>trackData.notes.forEach(note => ...)\<close>, up to the constructor call.\<close>

definition noteOptions :: "MidiComposition \<Rightarrow> nat \<Rightarrow> MidiNote \<Rightarrow> NoteEventOptions" where
  "noteOptions composition trackIndex note =
     (let p = noteToMidiNumber (pitch note);
          v = (case velocity note of Some x \<Rightarrow> x | None \<Rightarrow> Fin 100);
          ch = (case channel note of Some x \<Rightarrow> js_rem x (Fin 16) | None \<Rightarrow> indexChannel trackIndex);
          w = (case beat note of
                 Some b \<Rightarrow> convertBeatToWait b (ToNumber (bpm composition))
               | None \<Rightarrow>
                   (let st = js_or (startTime note) (Fin 0)
                    in T (Math_round (js_mul st (Fin (1 / 2))))))
      in \<lparr>ev_pitch = [p], ev_duration = duration note, ev_velocity = v,
          ev_channel = ch, ev_wait = w\<rparr>)"

text \<open>\<open>composition.bpm || composition.tempo || 120\<close>.\<close>

definition tempoOf :: "MidiComposition \<Rightarrow> jsnum" where
  "tempoOf composition = js_or (bpm composition) (js_or (tempo composition) (Fin 120))"

definition timeSignatureOf :: "MidiComposition \<Rightarrow> TimeSignature" where
  "timeSignatureOf composition =
     (case timeSignature composition of
        Some ts \<Rightarrow> ts
      | None \<Rightarrow> \<lparr>numerator = Fin 4, denominator = Fin 4\<rparr>)"

text \<open>
  The body of \<open>composition.tracks.forEach((trackData, trackIndex) => ...)\<close>. An empty
  track name is falsy and sets no name.
\<close>

definition buildTrack :: "MidiComposition \<Rightarrow> nat \<Rightarrow> MidiTrack \<Rightarrow> track_call list" where
  "buildTrack composition trackIndex trackData =
     (case name trackData of
        Some n \<Rightarrow> (if n \<noteq> [] then [addTrackName n] else [])
      | None \<Rightarrow> [])
     @ [setTempo (tempoOf composition)]
     @ [setTimeSignature (numerator (timeSignatureOf composition))
          (denominator (timeSignatureOf composition))]
     @ (case instrument trackData of
          Some i \<Rightarrow> [ProgramChangeEvent i (indexChannel trackIndex)]
        | None \<Rightarrow> [])
     @ map (\<lambda>note. NoteEvent (noteOptions composition trackIndex note)) (track_notes trackData)"

definition buildTracks :: "MidiComposition \<Rightarrow> track_call list list" where
  "buildTracks composition =
     map (\<lambda>(trackIndex, trackData). buildTrack composition trackIndex trackData)
       (enumerate 0 (tracks composition))"

section \<open>Paths\<close>





fun joinSegments :: "string list \<Rightarrow> string" where
  "joinSegments [] = []"
| "joinSegments [s] = s"
| "joinSegments (s # ss) = s @ ''/'' @ joinSegments ss"



section \<open>The environment, the file system and the library\<close>







section \<open>createMidiFile\<close>





section \<open>The handler of create_midi\<close>



section \<open>Notions used in the statements\<close>

text \<open>The note at position \<open>j\<close> of track \<open>i\<close>, when there is one.\<close>

definition hasNote :: "MidiComposition \<Rightarrow> nat \<Rightarrow> nat \<Rightarrow> bool" where
  "hasNote composition i j =
     (i < length (tracks composition) \<and> j < length (track_notes (tracks composition ! i)))"

definition noteAt :: "MidiComposition \<Rightarrow> nat \<Rightarrow> nat \<Rightarrow> MidiNote" where
  "noteAt composition i j = track_notes (tracks composition ! i) ! j"

text \<open>
  The table of durations as the specification writes it, with its default: what the
  \<open>switch\<close> of the handler is compared with.
\<close>

definition durationTable :: "(jsnum \<times> string) list" where
  "durationTable =
     [(Fin (1 / 8), ''32''), (Fin (1 / 4), ''16''), (Fin (1 / 2), ''8''),
      (Fin 1, ''4''), (Fin 2, ''2'')]"

definition tableDuration :: "jsnum \<Rightarrow> string" where
  "tableDuration d = (case map_of durationTable d of Some s \<Rightarrow> s | None \<Rightarrow> ''4'')"

text \<open>
  An ordinary segment of a path: not empty, not \<open>.\<close> and not \<open>..\<close>; a string without
  a slash; and the form of a normalized list of segments: some \<open>..\<close>, allowed only
  where the path may climb above its root, then ordinary segments.
\<close>

definition plain :: "string \<Rightarrow> bool" where
  "plain s = (s \<noteq> [] \<and> s \<noteq> ''.'' \<and> s \<noteq> ''..'')"



section \<open>Example inputs\<close>

definition exampleNote :: MidiNote where
  "exampleNote =
     \<lparr>pitch = PitchStr ''C4'', beat = None, startTime = None, time = Some (Fin 2),
      duration = DurNum (Fin (1 / 4)), velocity = None, channel = None\<rparr>"

definition exampleBeatNote :: MidiNote where
  "exampleBeatNote =
     \<lparr>pitch = PitchNum (Fin 60), beat = Some (Fin 3), startTime = Some (Fin 7), time = Some (Fin 9),
      duration = DurStr ''4'', velocity = Some (Fin 90), channel = Some (Fin 17)\<rparr>"

definition exampleComposition :: MidiComposition where
  "exampleComposition =
     \<lparr>bpm = Some (Fin 120), tempo = None, timeSignature = None,
      tracks = [\<lparr>name = Some ''Piano'', instrument = Some (Fin 0),
                 track_notes = [exampleNote, exampleBeatNote]\<rparr>]\<rparr>"





section \<open>Normalization acts note by note\<close>

lemma forEachNote_tracks:
  "tracks (forEachNote f c) =
     map (\<lambda>track. track\<lparr>track_notes := map f (track_notes track)\<rparr>) (tracks c)"
  by (simp add: forEachNote_def)

lemma hasNote_forEachNote: "hasNote (forEachNote f c) i j = hasNote c i j"
  by (auto simp: hasNote_def forEachNote_tracks)

lemma noteAt_forEachNote: "hasNote c i j \<Longrightarrow> noteAt (forEachNote f c) i j = f (noteAt c i j)"
  by (simp add: hasNote_def noteAt_def forEachNote_tracks)

lemma noteAt_normalizeComposition:
  "hasNote c i j \<Longrightarrow>
     noteAt (normalizeComposition c) i j = normalizeTime (normalizeDuration (noteAt c i j))"
  by (simp add: normalizeComposition_def noteAt_forEachNote hasNote_forEachNote)

lemma convertDuration_table: "convertDuration (DurNum d) = DurStr (tableDuration d)"
  by (simp add: tableDuration_def durationTable_def)

lemma duration_normalizeTime: "duration (normalizeTime n) = duration n"
  by (simp add: normalizeTime_def)

section \<open>The note events of a track\<close>

text \<open>Every note of a track reaches the library as the event that \<open>noteOptions\<close> describes.\<close>

lemma buildTracks_nth:
  "i < length (tracks c) \<Longrightarrow> buildTracks c ! i = buildTrack c i (tracks c ! i)"
  by (simp add: buildTracks_def nth_enumerate_eq)

lemma noteEvent_in_track:
  assumes "hasNote c i j"
  shows "NoteEvent (noteOptions c i (noteAt c i j)) \<in> set (buildTracks c ! i)"
proof -
  have "noteAt c i j \<in> set (track_notes (tracks c ! i))"
    using assms by (simp add: hasNote_def noteAt_def)
  then have "NoteEvent (noteOptions c i (noteAt c i j)) \<in> set (buildTrack c i (tracks c ! i))"
    by (simp add: buildTrack_def)
  then show ?thesis
    using assms by (simp add: hasNote_def buildTracks_nth)
qed

section \<open>Durations\<close>

text \<open>
  C3. In the normalized composition, a note whose duration was a number has the string
  that the table gives for 0.125, 0.25, 0.5, 1 and 2, and the string 4 for every other
  number (\<open>NaN\<close> and the infinities too). Normalization is a total function: no
  numeric duration makes it fail.
\<close>

theorem numeric_duration_normalized:
  assumes "hasNote c i j" and "duration (noteAt c i j) = DurNum d"
  shows "duration (noteAt (normalizeComposition c) i j) = DurStr (tableDuration d)"
  using assms
  by (simp add: noteAt_normalizeComposition duration_normalizeTime normalizeDuration_def
      convertDuration_table del: convertDuration.simps)

theorem numeric_duration_normalized_witness:
  "hasNote exampleComposition 0 0
   \<and> duration (noteAt exampleComposition 0 0) = DurNum (Fin (1 / 4))
   \<and> duration (noteAt (normalizeComposition exampleComposition) 0 0) = DurStr ''16''
   \<and> tableDuration (Fin 3) = ''4''"
  using numeric_duration_normalized [of exampleComposition 0 0 "Fin (1 / 4)"]
  by (simp add: hasNote_def noteAt_def exampleComposition_def exampleNote_def
      tableDuration_def durationTable_def)

section \<open>Pitch\<close>

text \<open>
  C10. \<open>noteToMidiNumber\<close> returns its argument, a number or a string, and the note
  event is built with the note's pitch as it was given: a note name is not resolved to
  a number.
\<close>

theorem pitch_passed_unchanged:
  "noteToMidiNumber p = p \<and> ev_pitch (noteOptions c i n) = [pitch n]"
proof -
  have same: "noteToMidiNumber q = q" for q
    by (cases q) simp_all
  then show ?thesis
    by (simp add: noteOptions_def Let_def)
qed

theorem pitch_passed_unchanged_witness:
  "noteToMidiNumber (PitchStr ''C4'') = PitchStr ''C4''
   \<and> ev_pitch (noteOptions exampleComposition 0 exampleNote) = [PitchStr ''C4'']"
  using pitch_passed_unchanged [of "PitchStr ''C4''" exampleComposition 0 exampleNote]
  by (simp add: exampleNote_def)

section \<open>The position aliases\<close>

lemma noteOptions_ignores_time: "noteOptions c k (n\<lparr>time := x\<rparr>) = noteOptions c k n"
  by (cases "beat n") (simp_all add: noteOptions_def)

text \<open>
  C6. In the normalized composition: a note that had \<open>time\<close> and no \<open>startTime\<close> has
  the value of \<open>time\<close> as its \<open>startTime\<close>, and \<open>time\<close> is gone; a note that had a
  \<open>startTime\<close> keeps it, whatever \<open>time\<close> it has beside it (that field is left as it
  was). Only \<open>startTime\<close> is read afterwards: the note event does not depend on the
  \<open>time\<close> field of a normalized note.
\<close>

theorem time_alias_normalized:
  assumes "hasNote c i j"
  shows "(time (noteAt c i j) = Some t \<and> startTime (noteAt c i j) = None \<longrightarrow>
            startTime (noteAt (normalizeComposition c) i j) = Some t
            \<and> time (noteAt (normalizeComposition c) i j) = None)
       \<and> (startTime (noteAt c i j) = Some s \<longrightarrow>
            startTime (noteAt (normalizeComposition c) i j) = Some s
            \<and> time (noteAt (normalizeComposition c) i j) = time (noteAt c i j))
       \<and> noteOptions c' k ((noteAt (normalizeComposition c) i j)\<lparr>time := x\<rparr>)
           = noteOptions c' k (noteAt (normalizeComposition c) i j)"
proof -
  have n: "noteAt (normalizeComposition c) i j = normalizeTime (normalizeDuration (noteAt c i j))"
    using assms by (rule noteAt_normalizeComposition)
  show ?thesis
    unfolding n noteOptions_ignores_time by (simp add: normalizeTime_def normalizeDuration_def)
qed

theorem time_alias_normalized_witness:
  "hasNote exampleComposition 0 0
   \<and> time (noteAt exampleComposition 0 0) = Some (Fin 2)
   \<and> startTime (noteAt exampleComposition 0 0) = None
   \<and> startTime (noteAt (normalizeComposition exampleComposition) 0 0) = Some (Fin 2)
   \<and> time (noteAt (normalizeComposition exampleComposition) 0 0) = None
   \<and> hasNote exampleComposition 0 1
   \<and> startTime (noteAt exampleComposition 0 1) = Some (Fin 7)
   \<and> startTime (noteAt (normalizeComposition exampleComposition) 0 1) = Some (Fin 7)
   \<and> time (noteAt (normalizeComposition exampleComposition) 0 1) = Some (Fin 9)"
  using time_alias_normalized [of exampleComposition 0 0 "Fin 2"]
    time_alias_normalized [of exampleComposition 0 1 _ "Fin 7"]
  by (simp add: hasNote_def noteAt_def exampleComposition_def exampleNote_def exampleBeatNote_def)

section \<open>Timing\<close>



text \<open>
  C2. For a note without a \<open>beat\<close>, the tick of the wait is
  \<open>Math.round(startTime * 0.5)\<close>: for the note's \<open>startTime\<close>, and for the value of
  \<open>time\<close> that normalization has moved there. The wait is the same for every
  composition, so it does not depend on \<open>bpm\<close>. An absent \<open>startTime\<close> counts as 0.
  (\<open>NaN\<close>, which JSON cannot express, is set aside: \<open>startTime || 0\<close> replaces it
  by 0.)
\<close>

theorem startTime_wait_formula:
  assumes "beat n = None"
  shows "(startTime n = Some s \<and> s \<noteq> NaN \<longrightarrow>
            ev_wait (noteOptions c i n) = T (Math_round (js_mul s (Fin (1 / 2)))))
       \<and> (startTime n = Some (Fin x) \<longrightarrow>
            ev_wait (noteOptions c i n) = T (Fin (of_int \<lfloor>x / 2 + 1 / 2\<rfloor>)))
       \<and> (startTime n = None \<and> time n = Some s \<and> s \<noteq> NaN \<longrightarrow>
            ev_wait (noteOptions c i (normalizeTime n)) = T (Math_round (js_mul s (Fin (1 / 2)))))
       \<and> (startTime n = None \<longrightarrow> ev_wait (noteOptions c i n) = T (Fin 0))
       \<and> ev_wait (noteOptions c' i' n) = ev_wait (noteOptions c i n)"
proof -
  have or0: "Math_round (js_mul (js_or (Some s) (Fin 0)) (Fin (1 / 2))) = Math_round (js_mul s (Fin (1 / 2)))"
    if "s \<noteq> NaN" for s
    using that by (cases s) (simp_all add: signed_inf_def)
  have none0: "Math_round (js_mul (js_or None (Fin 0)) (Fin (1 / 2))) = Fin 0"
    by (simp add: floor_eq_iff)
  show ?thesis
    using assms
    by (auto simp: noteOptions_def normalizeTime_def or0 none0 simp del: js_or.simps)
qed

theorem startTime_wait_formula_witness:
  "beat exampleNote = None \<and> startTime exampleNote = None \<and> time exampleNote = Some (Fin 2) \<and> Fin 2 \<noteq> NaN
   \<and> ev_wait (noteOptions exampleComposition 0 (normalizeTime exampleNote)) = T (Fin 1)
   \<and> ev_wait (noteOptions exampleComposition 0 exampleNote) = T (Fin 0)
   \<and> startTime (exampleNote\<lparr>startTime := Some (Fin 3)\<rparr>) = Some (Fin 3)
   \<and> ev_wait (noteOptions exampleComposition 0 (exampleNote\<lparr>startTime := Some (Fin 3)\<rparr>)) = T (Fin 2)"
  using startTime_wait_formula [of exampleNote "Fin 2" exampleComposition 0]
    startTime_wait_formula [of "exampleNote\<lparr>startTime := Some (Fin 3)\<rparr>" "Fin 3" exampleComposition 0 3]
  by (simp add: exampleNote_def floor_eq_iff)



section \<open>Channels\<close>

text \<open>
  On a non-negative integer the remainder is the usual one, so a track index and a
  non-negative channel are reduced into the range from 0 to 15.
\<close>

lemma js_rem_16_nonneg:
  assumes "0 \<le> k"
  shows "js_rem (Fin (of_int k)) (Fin 16) = Fin (of_int (k mod 16))"
proof -
  have "\<lfloor>(of_int k :: rat) / 16\<rfloor> = k div 16"
    using floor_divide_of_int_eq [of k 16, where ?'a = rat] by simp
  moreover have "(0::rat) \<le> of_int k / 16" using assms by simp
  ultimately have "trunc (of_int k / 16) = k div 16" by (simp add: trunc_def)
  moreover have "(of_int k :: rat) - 16 * of_int (k div 16) = of_int (k mod 16)"
    by (simp add: minus_div_mult_eq_mod [symmetric] mult.commute)
  ultimately show ?thesis by simp
qed

lemma indexChannel_mod: "indexChannel i = Fin (of_nat (i mod 16))"
proof -
  have "int i mod 16 = int (i mod 16)"
    by (simp add: zmod_int)
  then have "(of_int (int i mod 16) :: rat) = of_nat (i mod 16)"
    by (simp only: of_int_of_nat_eq)
  then show ?thesis
    using js_rem_16_nonneg [of "int i"] by (simp add: indexChannel_def)
qed

lemma channel_in_range:
  "channel n = None \<Longrightarrow> ev_channel (noteOptions c i n) = Fin (of_nat (i mod 16))"
  "channel n = Some (Fin (of_int k)) \<Longrightarrow> 0 \<le> k \<Longrightarrow>
     ev_channel (noteOptions c i n) = Fin (of_int (k mod 16))"
  by (simp_all add: noteOptions_def indexChannel_mod js_rem_16_nonneg del: js_rem.simps)

text \<open>
  C5. The channel of a note event is \<open>note.channel % 16\<close>, and \<open>%\<close> keeps the sign of
  its left operand: the channel -1 reaches the encoder as -1, outside the range from
  0 to 15.
\<close>

theorem negative_channel_kept_negative:
  "ev_channel (noteOptions exampleComposition 0 (exampleNote\<lparr>channel := Some (Fin (- 1))\<rparr>)) = Fin (- 1)"
  by (simp add: noteOptions_def exampleNote_def trunc_def floor_eq_iff)

section \<open>What createMidiFile returns\<close>





section \<open>Tempo\<close>







section \<open>Determinism\<close>



section \<open>Output paths\<close>





lemma joinSegments_snoc: "S \<noteq> [] \<Longrightarrow> joinSegments (S @ [x]) = joinSegments S @ ''/'' @ x"
  by (induction S rule: joinSegments.induct) auto


lemma joinSegments_nonempty: "list_all plain S \<Longrightarrow> S \<noteq> [] \<Longrightarrow> joinSegments S \<noteq> []"
  by (induction S rule: joinSegments.induct) (auto simp: plain_def)















lemma joinSegments_last: "x \<noteq> [] \<Longrightarrow> last (joinSegments (R @ [x])) = last x"
  by (cases "R = []") (simp_all add: joinSegments_snoc)










end
